theory Spec2Isabelle
  imports Complex_Main "HOL-Library.Sublist"
begin

section \<open>Data model (models/schemas.py)\<close>

text \<open>
  Python strings are modelled as \<open>string\<close>: one \<open>char\<close> per code point, which covers the
  code points below 256. Every string literal of the modelled functions lies in that range.
  A \<open>datetime\<close> is a point on a discrete time line.
\<close>

type_synonym datetime = nat

datatype ParticipantRole = ORGANIZER | PRESENTER | ATTENDEE | PRODUCER | COORGANIZER

text \<open>The field \<open>id\<close> of the source is called \<open>id_str\<close>, since \<open>id\<close> is the identity of HOL.\<close>

record ParticipantInfo =
  id_str :: string
  display_name :: string
  email :: "string option"
  role :: ParticipantRole
  is_muted :: bool
  joined_at :: datetime

record MeetingInfo =
  meeting_id :: string
  organizer_id :: string
  subject :: "string option"
  participants :: "ParticipantInfo list"
  started_at :: "datetime option"

record GreetingRequest =
  participant_name :: string
  language :: string
  custom_message :: "string option"

text \<open>
  \<open>duration_seconds\<close> is a Python float; the model computes it in exact rational
  arithmetic, so the rounding of the double is not represented.
\<close>

record AudioResponse =
  audio_url :: string
  duration_seconds :: rat
  text_content :: string
  created_at :: datetime

text \<open>An opaque handle of the Bot Framework SDK: channel and conversation identifiers.\<close>

datatype ConversationReference = ConversationReference string string

section \<open>Exceptions and the outside world\<close>

datatype exn =
  KeyError string
  | ValueError
  | IndexError
  | AttributeError
  | ValidationError
  | ExternalError string

text \<open>
  What one handler call sees of the runtime and of the external collaborators:
  the clock, the UUID generator, the configured default language
  (config/settings.py, \<open>settings.default_greeting_language\<close>), the text-to-speech endpoint
  (\<open>client.audio.speech.create\<close>, given the input text and the voice), the write of the
  audio file (path and content), the SDK's \<open>MessageFactory.text\<close>, and the runtime's
  \<open>str.format\<close> for the templates that \<open>format_name\<close> below does not cover.
  Each of the calls may raise.  All clock readings of one handler call are one value.
\<close>

record env =
  utcnow :: datetime
  uuid4 :: string
  default_greeting_language :: string
  speech_create :: "string \<Rightarrow> string \<Rightarrow> exn + string"
  write_bytes :: "string \<Rightarrow> string \<Rightarrow> exn + unit"
  message_factory_text :: "string \<Rightarrow> exn + unit"
  str_format :: "string \<Rightarrow> string \<Rightarrow> exn + string"

section \<open>The built-in \<open>str.format\<close> with the one keyword argument \<open>name\<close>\<close>

text \<open>
  \<open>template.format(name=n)\<close> for a string \<open>n\<close>, as CPython (64-bit) scans the template
  from left to right and renders each replacement field when it meets it.

  A replacement field that names no conversion and no format specification is looked
  up by the part of its text before the first \<open>.\<close> or \<open>[\<close>.  A run of decimal digits
  whose value exceeds \<open>2^63 - 1\<close> is a ValueError; an empty name or a number is a
  positional index, and there is no positional argument (IndexError); \<open>name\<close> alone is
  the argument; any other name is a missing keyword (KeyError).  The result \<open>None\<close> marks
  what is not modelled: an attribute or index access on the argument.
\<close>

definition is_digit :: "char \<Rightarrow> bool" where
  "is_digit c \<longleftrightarrow> c \<in> set ''0123456789''"

definition decimal_value :: "string \<Rightarrow> nat" where
  "decimal_value ds = foldl (\<lambda>a c. a * 10 + (of_char c - 48)) 0 ds"

definition field_value :: "string \<Rightarrow> string \<Rightarrow> (exn + string) option" where
  "field_value f n =
     (let first = takeWhile (\<lambda>c. c \<noteq> CHR ''.'' \<and> c \<noteq> CHR ''['') f;
          rest = dropWhile (\<lambda>c. c \<noteq> CHR ''.'' \<and> c \<noteq> CHR ''['') f;
          digits = takeWhile is_digit first
      in if decimal_value digits > 2 ^ 63 - 1 then Some (Inl ValueError)
         else if first = [] \<or> digits = first then Some (Inl IndexError)
         else if first = ''name'' then (if rest = [] then Some (Inr n) else None)
         else Some (Inl (KeyError first)))"

definition followed_by :: "string \<Rightarrow> (exn + string) option \<Rightarrow> (exn + string) option" where
  "followed_by v r =
     (case r of
        None \<Rightarrow> None
      | Some (Inl x) \<Rightarrow> Some (Inl x)
      | Some (Inr t) \<Rightarrow> Some (Inr (v @ t)))"

text \<open>
  The scanner.  Its first argument is \<open>None\<close> in literal text, and inside a replacement
  field it is the text of the field read so far with the flag "inside square brackets".
  In literal text \<open>{{\<close> and \<open>}}\<close> are the escaped braces, a single \<open>}\<close> and a \<open>{\<close> at
  the end are ValueErrors, and any other \<open>{\<close> opens a field.  A field ends at the first
  \<open>}\<close> outside square brackets; a \<open>{\<close> outside brackets and the end of the template are
  ValueErrors.  A field with a conversion (\<open>!\<close>) or a format specification (\<open>:\<close>) is not
  modelled: the result is \<open>None\<close>.
\<close>

fun format_from :: "(string \<times> bool) option \<Rightarrow> string \<Rightarrow> string \<Rightarrow> (exn + string) option" where
  "format_from None [] n = Some (Inr [])"
| "format_from (Some fb) [] n = Some (Inl ValueError)"
| "format_from None (c # cs) n =
     (if c = CHR ''{'' then
        (case cs of
           [] \<Rightarrow> Some (Inl ValueError)
         | d # ds \<Rightarrow>
             if d = CHR ''{'' then followed_by ''{'' (format_from None ds n)
             else format_from (Some ([], False)) cs n)
      else if c = CHR ''}'' then
        (case cs of
           [] \<Rightarrow> Some (Inl ValueError)
         | d # ds \<Rightarrow>
             if d = CHR ''}'' then followed_by ''}'' (format_from None ds n)
             else Some (Inl ValueError))
      else followed_by [c] (format_from None cs n))"
| "format_from (Some (f, in_brackets)) (c # cs) n =
     (if in_brackets then format_from (Some (f @ [c], c \<noteq> CHR '']'')) cs n
      else if c = CHR ''{'' then Some (Inl ValueError)
      else if c = CHR ''['' then format_from (Some (f @ [c], True)) cs n
      else if c = CHR ''}'' then
        (case field_value f n of
           None \<Rightarrow> None
         | Some (Inl x) \<Rightarrow> Some (Inl x)
         | Some (Inr v) \<Rightarrow> followed_by v (format_from None cs n))
      else if c = CHR '':'' \<or> c = CHR ''!'' then None
      else format_from (Some (f @ [c], False)) cs n)"

definition format_name :: "string \<Rightarrow> string \<Rightarrow> (exn + string) option" where
  "format_name t n = format_from None t n"

text \<open>
  The well-formed templates whose replacement fields are all \<open>{name}\<close>, described by
  their parts: literal text and name fields.  \<open>template_text\<close> is the template as it is
  written (a brace of the literal text doubled), \<open>interpolated\<close> is the template with the
  name in place of every field.
\<close>

datatype piece = Lit string | NameField

fun escape_braces :: "string \<Rightarrow> string" where
  "escape_braces [] = []"
| "escape_braces (c # cs) =
     (if c = CHR ''{'' then ''{{'' else if c = CHR ''}'' then ''}}'' else [c]) @ escape_braces cs"

fun template_text :: "piece list \<Rightarrow> string" where
  "template_text [] = []"
| "template_text (Lit s # ps) = escape_braces s @ template_text ps"
| "template_text (NameField # ps) = ''{name}'' @ template_text ps"

fun interpolated :: "piece list \<Rightarrow> string \<Rightarrow> string" where
  "interpolated [] n = []"
| "interpolated (Lit s # ps) n = s @ interpolated ps n"
| "interpolated (NameField # ps) n = n @ interpolated ps n"

section \<open>Greeting text and voice selection (services/openai_service.py)\<close>

text \<open>The dictionary \<open>greetings\<close> of \<open>generate_greeting_text\<close>, in the order of the source.
  The Spanish phrase holds the code points U+00C3 and U+00AD, as the source file does.\<close>

definition greetings :: "string \<Rightarrow> (string \<times> string) list" where
  "greetings n =
     [(''pt-BR'', ''Bom dia, '' @ n),
      (''en-US'', ''Good morning, '' @ n),
      (''es-ES'', ''Buenos d'' @ [CHR 0xC3, CHR 0xAD] @ ''as, '' @ n),
      (''fr-FR'', ''Bonjour, '' @ n)]"

text \<open>Python truthiness of an \<open>Optional[str]\<close>: the string, when it is neither \<open>None\<close>
  nor empty.\<close>

definition truthy :: "string option \<Rightarrow> string option" where
  "truthy v = (case v of None \<Rightarrow> None | Some t \<Rightarrow> if t = [] then None else Some t)"

text \<open>
  \<open>generate_greeting_text\<close>: a truthy \<open>custom_message\<close> is formatted with \<open>name\<close>, by
  \<open>format_name\<close> where that covers the template and by the runtime otherwise;
  without one the result is \<open>greetings.get(language, greetings["pt-BR"])\<close>, whose default
  is looked up before the call.
\<close>

definition generate_greeting_text :: "env \<Rightarrow> GreetingRequest \<Rightarrow> exn + string" where
  "generate_greeting_text e greeting_request =
     (case truthy (custom_message greeting_request) of
        Some t \<Rightarrow>
          (case format_name t (participant_name greeting_request) of
             Some result \<Rightarrow> result
           | None \<Rightarrow> str_format e t (participant_name greeting_request))
      | None \<Rightarrow>
          (case map_of (greetings (participant_name greeting_request)) ''pt-BR'' of
             None \<Rightarrow> Inl (KeyError ''pt-BR'')
           | Some d \<Rightarrow>
               (case map_of (greetings (participant_name greeting_request))
                       (language greeting_request) of
                  None \<Rightarrow> Inr d
                | Some g \<Rightarrow> Inr g)))"

text \<open>The dictionary \<open>voice_mapping\<close> of \<open>generate_greeting_audio\<close> and the lookup
  \<open>voice_mapping.get(language, "alloy")\<close>.\<close>

definition voice_mapping :: "(string \<times> string) list" where
  "voice_mapping =
     [(''pt-BR'', ''alloy''), (''en-US'', ''echo''), (''es-ES'', ''fable''), (''fr-FR'', ''onyx'')]"

definition selected_voice :: "string \<Rightarrow> string" where
  "selected_voice lang = (case map_of voice_mapping lang of None \<Rightarrow> ''alloy'' | Some v \<Rightarrow> v)"

text \<open>
  \<open>len(text.split())\<close>: the number of maximal runs of characters that are not white
  space.  The white space of \<open>str.split\<close> below code point 256 is 9 to 13, 28 to 32, 133
  and 160.
\<close>

definition is_space :: "char \<Rightarrow> bool" where
  "is_space c =
     (let k = (of_char c :: nat)
      in (9 \<le> k \<and> k \<le> 13) \<or> (28 \<le> k \<and> k \<le> 32) \<or> k = 133 \<or> k = 160)"

fun word_count :: "bool \<Rightarrow> string \<Rightarrow> nat" where
  "word_count in_word [] = 0"
| "word_count in_word (c # cs) =
     (if is_space c then word_count False cs
      else if in_word then word_count True cs
      else Suc (word_count True cs))"

section \<open>The tracker state and the record of outbound requests\<close>

text \<open>
  The three dictionaries of \<open>TeamsService\<close>, and beside them the sequence of requests
  sent to the text-to-speech endpoint so far (input text and voice), which is how a
  greeting dispatch is observed from outside.  Logger calls have no effect on this state
  and are left out; a handler that only logs is the identity.
\<close>

record world =
  active_meetings :: "string \<rightharpoonup> MeetingInfo"
  participant_cache :: "string \<rightharpoonup> string set"
  conversation_references :: "string \<rightharpoonup> ConversationReference"
  tts_requests :: "(string \<times> string) list"

text \<open>\<open>TeamsService.__init__\<close>, with no request sent yet.\<close>

definition init_world :: world where
  "init_world =
     \<lparr>active_meetings = Map.empty, participant_cache = Map.empty,
      conversation_references = Map.empty, tts_requests = []\<rparr>"

section \<open>Speech synthesis (services/openai_service.py)\<close>

text \<open>
  \<open>generate_speech_audio\<close>: the request is sent, the content is written to
  \<open>/tmp/teams_bot_audio/<uuid>.mp3\<close>, and the response carries the location, the
  estimated duration \<open>max(1.0, word_count / 150 * 60)\<close> and the text.  An exception of
  either call is logged and raised again.
\<close>

definition generate_speech_audio ::
  "env \<Rightarrow> string \<Rightarrow> string \<Rightarrow> world \<Rightarrow> (exn + AudioResponse) \<times> world" where
  "generate_speech_audio e text voice w =
     (let audio_file_path = ''/tmp/teams_bot_audio/'' @ uuid4 e @ ''.mp3'';
          w1 = w\<lparr>tts_requests := tts_requests w @ [(text, voice)]\<rparr>
      in case speech_create e text voice of
           Inl x \<Rightarrow> (Inl x, w1)
         | Inr content \<Rightarrow>
             (case write_bytes e audio_file_path content of
                Inl x \<Rightarrow> (Inl x, w1)
              | Inr u \<Rightarrow>
                  (Inr \<lparr>audio_url = ''file://'' @ audio_file_path,
                        duration_seconds =
                          max 1 (of_nat (word_count False text) / 150 * 60),
                        text_content = text,
                        created_at = utcnow e\<rparr>, w1)))"

text \<open>\<open>generate_greeting_audio\<close>: text, then voice, then speech; every exception is
  logged and raised again.\<close>

definition generate_greeting_audio ::
  "env \<Rightarrow> GreetingRequest \<Rightarrow> world \<Rightarrow> (exn + AudioResponse) \<times> world" where
  "generate_greeting_audio e greeting_request w =
     (case generate_greeting_text e greeting_request of
        Inl x \<Rightarrow> (Inl x, w)
      | Inr greeting_text \<Rightarrow>
          generate_speech_audio e greeting_text
            (selected_voice (language greeting_request)) w)"

section \<open>The membership tracker (services/teams_service.py)\<close>

text \<open>
  \<open>_play_audio_in_meeting\<close>: a placeholder.  When the meeting has a conversation
  reference a text message is built from the greeting text (behind a fixed prefix) and
  dropped; nothing is sent.
\<close>

definition play_audio_in_meeting ::
  "env \<Rightarrow> string \<Rightarrow> AudioResponse \<Rightarrow> world \<Rightarrow> (exn + unit) \<times> world" where
  "play_audio_in_meeting e mid audio_response w =
     (case conversation_references w mid of
        None \<Rightarrow> (Inr (), w)
      | Some conversation_ref \<Rightarrow>
          (case message_factory_text e (text_content audio_response) of
             Inl x \<Rightarrow> (Inl x, w)
           | Inr u \<Rightarrow> (Inr (), w)))"

text \<open>
  \<open>_generate_and_play_greeting\<close>: the request takes the display name and the configured
  default language, with no custom message.  The \<open>except Exception\<close> clause logs and
  returns.
\<close>

definition generate_and_play_greeting ::
  "env \<Rightarrow> string \<Rightarrow> ParticipantInfo \<Rightarrow> world \<Rightarrow> (exn + unit) \<times> world" where
  "generate_and_play_greeting e mid participant w =
     (let greeting_request =
            \<lparr>participant_name = display_name participant,
             language = default_greeting_language e,
             custom_message = None\<rparr>
      in case generate_greeting_audio e greeting_request w of
           (Inl x, w1) \<Rightarrow> (Inr (), w1)
         | (Inr audio_response, w1) \<Rightarrow>
             (case play_audio_in_meeting e mid audio_response w1 of
                (Inl x, w2) \<Rightarrow> (Inr (), w2)
              | (Inr u, w2) \<Rightarrow> (Inr (), w2)))"

text \<open>\<open>_log_bot_activity\<close>: builds a \<open>BotActivity\<close> from string arguments, which
  passes validation, and logs it.\<close>

definition log_bot_activity :: "string \<Rightarrow> string \<Rightarrow> string option \<Rightarrow> world \<Rightarrow> (exn + unit) \<times> world" where
  "log_bot_activity mid activity_type participant_id w = (Inr (), w)"

text \<open>Lines 36 to 43 of \<open>handle_meeting_join\<close>: a meeting that is not known yet is
  created with organizer \<open>"unknown"\<close>, the current time as its start and no participant,
  together with an empty cache entry.\<close>

definition init_meeting :: "env \<Rightarrow> string \<Rightarrow> world \<Rightarrow> world" where
  "init_meeting e mid w =
     (if active_meetings w mid = None then
        w\<lparr>active_meetings := (active_meetings w)(mid \<mapsto>
             \<lparr>meeting_id = mid, organizer_id = ''unknown'', subject = None,
              participants = [], started_at = Some (utcnow e)\<rparr>),
          participant_cache := (participant_cache w)(mid \<mapsto> {})\<rparr>
      else w)"

text \<open>The body of the \<open>try\<close> block of \<open>handle_meeting_join\<close>.  Reading
  \<open>self.participant_cache[meeting_id]\<close> raises KeyError when the entry is missing.\<close>

definition handle_meeting_join_body ::
  "env \<Rightarrow> string \<Rightarrow> ParticipantInfo \<Rightarrow> world \<Rightarrow> (exn + unit) \<times> world" where
  "handle_meeting_join_body e mid participant w =
     (let w1 = init_meeting e mid w
      in case active_meetings w1 mid of
           None \<Rightarrow> (Inl (KeyError mid), w1)
         | Some meeting \<Rightarrow>
             (case participant_cache w1 mid of
                None \<Rightarrow> (Inl (KeyError mid), w1)
              | Some cache \<Rightarrow>
                  if id_str participant \<notin> cache then
                    (let w2 = w1\<lparr>participant_cache := (participant_cache w1)(mid \<mapsto>
                                  insert (id_str participant) cache)\<rparr>;
                         w3 = w2\<lparr>active_meetings := (active_meetings w2)(mid \<mapsto>
                                  meeting\<lparr>participants := participants meeting @ [participant]\<rparr>)\<rparr>
                     in case generate_and_play_greeting e mid participant w3 of
                          (Inl x, w4) \<Rightarrow> (Inl x, w4)
                        | (Inr u, w4) \<Rightarrow>
                            log_bot_activity mid ''participant_joined''
                              (Some (id_str participant)) w4)
                  else (Inr (), w1)))"

text \<open>\<open>handle_meeting_join\<close>: the \<open>except Exception\<close> clause logs and returns.\<close>

definition handle_meeting_join ::
  "env \<Rightarrow> string \<Rightarrow> ParticipantInfo \<Rightarrow> world \<Rightarrow> (exn + unit) \<times> world" where
  "handle_meeting_join e mid participant w =
     (case handle_meeting_join_body e mid participant w of
        (Inl x, w1) \<Rightarrow> (Inr (), w1)
      | (Inr u, w1) \<Rightarrow> (Inr (), w1))"

text \<open>\<open>_cleanup_meeting\<close>: each of the three entries is deleted when it is there.\<close>

definition cleanup_meeting :: "string \<Rightarrow> world \<Rightarrow> (exn + unit) \<times> world" where
  "cleanup_meeting mid w =
     (let w1 = (if active_meetings w mid \<noteq> None
                then w\<lparr>active_meetings := (active_meetings w)(mid := None)\<rparr> else w);
          w2 = (if participant_cache w1 mid \<noteq> None
                then w1\<lparr>participant_cache := (participant_cache w1)(mid := None)\<rparr> else w1);
          w3 = (if conversation_references w2 mid \<noteq> None
                then w2\<lparr>conversation_references :=
                          (conversation_references w2)(mid := None)\<rparr> else w2)
      in (Inr (), w3))"

text \<open>The body of the \<open>try\<close> block of \<open>handle_meeting_leave\<close>: \<open>discard\<close> on the cache
  entry when there is one, the list filtered, and the cleanup decided on the filtered
  list.\<close>

definition handle_meeting_leave_body :: "string \<Rightarrow> string \<Rightarrow> world \<Rightarrow> (exn + unit) \<times> world" where
  "handle_meeting_leave_body mid participant_id w =
     (case active_meetings w mid of
        None \<Rightarrow> (Inr (), w)
      | Some meeting \<Rightarrow>
          (let w1 = (case participant_cache w mid of
                       None \<Rightarrow> w
                     | Some cache \<Rightarrow>
                         w\<lparr>participant_cache := (participant_cache w)(mid \<mapsto>
                              cache - {participant_id})\<rparr>);
               remaining = filter (\<lambda>p. id_str p \<noteq> participant_id) (participants meeting);
               w2 = w1\<lparr>active_meetings := (active_meetings w1)(mid \<mapsto>
                        meeting\<lparr>participants := remaining\<rparr>)\<rparr>
           in case log_bot_activity mid ''participant_left'' (Some participant_id) w2 of
                (Inl x, w3) \<Rightarrow> (Inl x, w3)
              | (Inr u, w3) \<Rightarrow>
                  if remaining = [] then cleanup_meeting mid w3 else (Inr (), w3)))"

definition handle_meeting_leave :: "string \<Rightarrow> string \<Rightarrow> world \<Rightarrow> (exn + unit) \<times> world" where
  "handle_meeting_leave mid participant_id w =
     (case handle_meeting_leave_body mid participant_id w of
        (Inl x, w1) \<Rightarrow> (Inr (), w1)
      | (Inr u, w1) \<Rightarrow> (Inr (), w1))"

text \<open>The read-only query \<open>get_meeting_info\<close> and the upsert
  \<open>add_conversation_reference\<close>.\<close>

definition get_meeting_info :: "world \<Rightarrow> string \<Rightarrow> MeetingInfo option" where
  "get_meeting_info w mid = active_meetings w mid"

definition add_conversation_reference :: "string \<Rightarrow> ConversationReference \<Rightarrow> world \<Rightarrow> world" where
  "add_conversation_reference mid conversation_ref w =
     w\<lparr>conversation_references := (conversation_references w)(mid \<mapsto> conversation_ref)\<rparr>"

section \<open>The join handler of the bot (bot/teams_bot.py)\<close>

text \<open>
  The handlers read attributes of SDK objects with \<open>getattr\<close> and a default.  An
  attribute is absent, \<open>None\<close>, or a string; \<open>getattr\<close> returns the default only for an
  absent attribute (or an absent object).
\<close>

datatype pyattr = Absent | NoneVal | StrVal string

definition getattr_default :: "pyattr \<Rightarrow> pyattr \<Rightarrow> pyattr" where
  "getattr_default a d = (if a = Absent then d else a)"

text \<open>The attributes \<open>id\<close>, \<open>name\<close>, \<open>user_principal_name\<close> and \<open>email\<close> of the user, and the
  attribute \<open>role\<close> of the meeting part of a participant; \<open>user\<close> and \<open>meeting\<close> may be
  \<open>None\<close>.\<close>

record TeamsChannelAccount =
  tca_id :: pyattr
  tca_name :: pyattr
  tca_user_principal_name :: pyattr
  tca_email :: pyattr

record TeamsMeetingParticipant =
  tmp_user :: "TeamsChannelAccount option"
  tmp_meeting_role :: "pyattr option"

text \<open>\<open>str.lower\<close> on the code points below 256: the capital letters A to Z and
  U+00C0 to U+00DE without the multiplication sign U+00D7 move up by 32.\<close>

definition char_lower :: "char \<Rightarrow> char" where
  "char_lower c =
     (let k = (of_char c :: nat)
      in if (65 \<le> k \<and> k \<le> 90) \<or> (192 \<le> k \<and> k \<le> 222 \<and> k \<noteq> 215)
         then char_of (k + 32) else c)"

definition str_lower :: "string \<Rightarrow> string" where
  "str_lower s = map char_lower s"

definition user_attr :: "TeamsChannelAccount option \<Rightarrow> (TeamsChannelAccount \<Rightarrow> pyattr) \<Rightarrow> pyattr" where
  "user_attr u f = (case u of None \<Rightarrow> Absent | Some a \<Rightarrow> f a)"

text \<open>\<open>x or y\<close> on two values that are \<open>None\<close> or a string.\<close>

definition py_or :: "pyattr \<Rightarrow> pyattr \<Rightarrow> pyattr" where
  "py_or a b = (case a of StrVal s \<Rightarrow> if s = [] then b else a | other \<Rightarrow> b)"

text \<open>
  \<open>_convert_teams_participant\<close>.  \<open>.lower()\<close> on a role that is \<open>None\<close> is an
  AttributeError; the model \<open>ParticipantInfo\<close> rejects an \<open>id\<close> or a \<open>display_name\<close> that is
  not a string (ValidationError).
\<close>

definition convert_teams_participant :: "env \<Rightarrow> TeamsMeetingParticipant \<Rightarrow> exn + ParticipantInfo" where
  "convert_teams_participant e teams_participant =
     (let user = tmp_user teams_participant;
          participant_id = getattr_default (user_attr user tca_id) (StrVal ''unknown'');
          name = getattr_default (user_attr user tca_name) (StrVal ''Unknown User'');
          mail = py_or (getattr_default (user_attr user tca_user_principal_name) NoneVal)
                       (getattr_default (user_attr user tca_email) NoneVal);
          role_result =
            (case tmp_meeting_role teams_participant of
               None \<Rightarrow> Inr ATTENDEE
             | Some Absent \<Rightarrow> Inr ATTENDEE
             | Some NoneVal \<Rightarrow> Inl AttributeError
             | Some (StrVal r) \<Rightarrow>
                 (let role_str = str_lower r
                  in if role_str \<in> set [''organizer'', ''coorganizer'']
                     then Inr (if role_str = ''organizer'' then ORGANIZER else COORGANIZER)
                     else if role_str = ''presenter'' then Inr PRESENTER
                     else Inr ATTENDEE))
      in case role_result of
           Inl x \<Rightarrow> Inl x
         | Inr r \<Rightarrow>
             (case (participant_id, name) of
                (StrVal i, StrVal n) \<Rightarrow>
                  Inr \<lparr>id_str = i, display_name = n,
                       email = (case mail of StrVal m \<Rightarrow> Some m | other \<Rightarrow> None),
                       role = r, is_muted = False, joined_at = utcnow e\<rparr>
              | other \<Rightarrow> Inl ValidationError))"

text \<open>\<open>_is_bot_participant\<close>: \<open>identifier in display_name_lower\<close> is the substring test.\<close>

definition bot_identifiers :: "string list" where
  "bot_identifiers = [''teamsgreetingbot'', ''greeting bot'', ''bot'', ''@bot'']"

definition is_bot_participant :: "ParticipantInfo \<Rightarrow> bool" where
  "is_bot_participant participant =
     (let display_name_lower = str_lower (display_name participant)
      in list_ex (\<lambda>identifier. sublist identifier display_name_lower) bot_identifiers)"

text \<open>
  \<open>handle_meeting_join\<close> as the handler calls it, with whatever \<open>getattr\<close> returned for
  the meeting id.  A meeting id that is \<open>None\<close> is a key of no dictionary, \<open>MeetingInfo\<close>
  rejects it, and the \<open>except\<close> clause of \<open>handle_meeting_join\<close> returns with nothing
  changed.
\<close>

definition handle_meeting_join_any ::
  "env \<Rightarrow> pyattr \<Rightarrow> ParticipantInfo \<Rightarrow> world \<Rightarrow> (exn + unit) \<times> world" where
  "handle_meeting_join_any e mid_val participant w =
     (case mid_val of
        StrVal mid \<Rightarrow> handle_meeting_join e mid participant w
      | other \<Rightarrow> (Inr (), w))"

text \<open>The \<open>for\<close> loop of \<open>on_teams_meeting_participants_join\<close>: an exception leaves the
  loop.\<close>

fun join_loop ::
  "env \<Rightarrow> pyattr \<Rightarrow> TeamsMeetingParticipant list \<Rightarrow> world \<Rightarrow> (exn + unit) \<times> world" where
  "join_loop e mid_val [] w = (Inr (), w)"
| "join_loop e mid_val (participant # rest) w =
     (case convert_teams_participant e participant of
        Inl x \<Rightarrow> (Inl x, w)
      | Inr participant_info \<Rightarrow>
          if is_bot_participant participant_info then join_loop e mid_val rest w
          else
            (case handle_meeting_join_any e mid_val participant_info w of
               (Inl x, w1) \<Rightarrow> (Inl x, w1)
             | (Inr u, w1) \<Rightarrow> join_loop e mid_val rest w1))"

text \<open>\<open>on_teams_meeting_participants_join\<close>, given the participants that joined and the
  attribute \<open>id\<close> of the meeting info; the \<open>except Exception\<close> clause logs and returns.\<close>

definition on_teams_meeting_participants_join ::
  "env \<Rightarrow> TeamsMeetingParticipant list \<Rightarrow> pyattr \<Rightarrow> world \<Rightarrow> (exn + unit) \<times> world" where
  "on_teams_meeting_participants_join e meeting_participants_joined meeting_info_id w =
     (let mid_val = getattr_default meeting_info_id (StrVal ''unknown'')
      in case join_loop e mid_val meeting_participants_joined w of
           (Inl x, w1) \<Rightarrow> (Inr (), w1)
         | (Inr u, w1) \<Rightarrow> (Inr (), w1))"

section \<open>Reachable states and the invariant\<close>

text \<open>The states of a tracker that starts empty and is changed only by its own
  operations, whatever the outside world does in each call.\<close>

inductive reachable :: "world \<Rightarrow> bool" where
  start: "reachable init_world"
| join: "reachable w \<Longrightarrow> reachable (snd (handle_meeting_join e mid p w))"
| leave: "reachable w \<Longrightarrow> reachable (snd (handle_meeting_leave mid pid w))"
| cleanup: "reachable w \<Longrightarrow> reachable (snd (cleanup_meeting mid w))"
| add_reference: "reachable w \<Longrightarrow> reachable (add_conversation_reference mid r w)"

text \<open>The ids of the participant list of a meeting.\<close>

definition participant_ids :: "MeetingInfo \<Rightarrow> string list" where
  "participant_ids mt = map id_str (participants mt)"

text \<open>Every active meeting has a cache entry that holds exactly the ids of its list,
  and no id occurs twice in the list.\<close>

definition index_consistent :: "world \<Rightarrow> bool" where
  "index_consistent w \<longleftrightarrow>
     (\<forall>m mt. active_meetings w m = Some mt \<longrightarrow>
        participant_cache w m = Some (set (participant_ids mt)) \<and> distinct (participant_ids mt))"

text \<open>The invariant used in the proofs: consistency, and no active meeting is empty.\<close>

definition tracker_inv :: "world \<Rightarrow> bool" where
  "tracker_inv w \<longleftrightarrow>
     index_consistent w \<and> (\<forall>m mt. active_meetings w m = Some mt \<longrightarrow> participants mt \<noteq> [])"

text \<open>The phrase and the voice of the request that greets a participant in the
  configured default language.\<close>

definition greeting_phrase :: "string \<Rightarrow> string \<Rightarrow> string" where
  "greeting_phrase n lang =
     (case map_of (greetings n) lang of None \<Rightarrow> ''Bom dia, '' @ n | Some g \<Rightarrow> g)"

definition greeting_sent :: "env \<Rightarrow> ParticipantInfo \<Rightarrow> string \<times> string" where
  "greeting_sent e p =
     (greeting_phrase (display_name p) (default_greeting_language e),
      selected_voice (default_greeting_language e))"

section \<open>Concrete inputs\<close>

text \<open>An outside world in which every external call succeeds (and the runtime is never
  given a template to format), one in which the text-to-speech endpoint fails, and two
  participants.\<close>

definition env_ok :: env where
  "env_ok =
     \<lparr>utcnow = 100, uuid4 = ''0000'', default_greeting_language = ''pt-BR'',
      speech_create = (\<lambda>t v. Inr ''mp3''),
      write_bytes = (\<lambda>path content. Inr ()),
      message_factory_text = (\<lambda>t. Inr ()),
      str_format = (\<lambda>t n. Inl ValueError)\<rparr>"

definition env_failing :: env where
  "env_failing = env_ok\<lparr>utcnow := 200, speech_create := (\<lambda>t v. Inl (ExternalError ''timeout''))\<rparr>"

definition ana :: ParticipantInfo where
  "ana = \<lparr>id_str = ''p1'', display_name = ''Ana'', email = None, role = ATTENDEE,
           is_muted = False, joined_at = 0\<rparr>"

definition rui :: ParticipantInfo where
  "rui = \<lparr>id_str = ''p2'', display_name = ''Rui'', email = None, role = ATTENDEE,
           is_muted = False, joined_at = 0\<rparr>"

text \<open>A participant as the SDK delivers it: a person whose name contains the three
  letters, and the record the conversion makes of it under \<open>env_ok\<close>.\<close>

definition abbott :: TeamsMeetingParticipant where
  "abbott =
     \<lparr>tmp_user = Some \<lparr>tca_id = StrVal ''u7'', tca_name = StrVal ''Abbott'',
                        tca_user_principal_name = NoneVal, tca_email = NoneVal\<rparr>,
      tmp_meeting_role = None\<rparr>"

definition abbott_info :: ParticipantInfo where
  "abbott_info =
     \<lparr>id_str = ''u7'', display_name = ''Abbott'', email = None, role = ATTENDEE,
      is_muted = False, joined_at = 100\<rparr>"

section \<open>What each operation does to the state\<close>

text \<open>The dispatcher sends exactly one request and returns normally, whatever the
  outside world answers; a join has four cases and a leave three.\<close>

lemma greetings_default: "map_of (greetings n) ''pt-BR'' = Some (''Bom dia, '' @ n)"
  by (simp add: greetings_def)

lemma generate_greeting_text_None:
  "custom_message r = None \<Longrightarrow>
   generate_greeting_text e r = Inr (greeting_phrase (participant_name r) (language r))"
  by (simp add: generate_greeting_text_def truthy_def greetings_default greeting_phrase_def
      split: option.splits)

lemma generate_speech_audio_requests:
  "snd (generate_speech_audio e t v w) = w\<lparr>tts_requests := tts_requests w @ [(t, v)]\<rparr>"
  by (simp add: generate_speech_audio_def Let_def split: sum.splits)

lemma play_audio_in_meeting_state: "snd (play_audio_in_meeting e m a w) = w"
  by (simp add: play_audio_in_meeting_def split: option.splits sum.splits)

lemma generate_greeting_audio_state:
  "custom_message r = None \<Longrightarrow>
   snd (generate_greeting_audio e r w) =
     w\<lparr>tts_requests := tts_requests w @
        [(greeting_phrase (participant_name r) (language r), selected_voice (language r))]\<rparr>"
  by (simp add: generate_greeting_audio_def generate_greeting_text_None
      generate_speech_audio_requests)

lemma generate_and_play_greeting_eq:
  "generate_and_play_greeting e m p w =
     (Inr (), w\<lparr>tts_requests := tts_requests w @ [greeting_sent e p]\<rparr>)"
proof -
  let ?r = "\<lparr>participant_name = display_name p, language = default_greeting_language e,
             custom_message = None\<rparr>"
  obtain a w1 where g: "generate_greeting_audio e ?r w = (a, w1)"
    by (cases "generate_greeting_audio e ?r w")
  have w1: "w1 = w\<lparr>tts_requests := tts_requests w @ [greeting_sent e p]\<rparr>"
    using generate_greeting_audio_state [of ?r e w] g by (simp add: greeting_sent_def)
  show ?thesis
  proof (cases a)
    case (Inl x)
    with g w1 show ?thesis by (simp add: generate_and_play_greeting_def)
  next
    case (Inr audio)
    obtain b w2 where pl: "play_audio_in_meeting e m audio w1 = (b, w2)"
      by (cases "play_audio_in_meeting e m audio w1")
    have "w2 = w1" using play_audio_in_meeting_state [of e m audio w1] pl by simp
    with Inr g w1 pl show ?thesis
      by (cases b) (simp_all add: generate_and_play_greeting_def)
  qed
qed

lemma join_unknown:
  "active_meetings w m = None \<Longrightarrow>
   handle_meeting_join e m p w =
     (Inr (), w\<lparr>active_meetings := (active_meetings w)(m \<mapsto>
                  \<lparr>meeting_id = m, organizer_id = ''unknown'', subject = None,
                   participants = [p], started_at = Some (utcnow e)\<rparr>),
                participant_cache := (participant_cache w)(m \<mapsto> {id_str p}),
                tts_requests := tts_requests w @ [greeting_sent e p]\<rparr>)"
  by (simp add: handle_meeting_join_def handle_meeting_join_body_def init_meeting_def
      generate_and_play_greeting_eq log_bot_activity_def Let_def)

lemma join_new:
  "active_meetings w m = Some mt \<Longrightarrow> participant_cache w m = Some S \<Longrightarrow> id_str p \<notin> S \<Longrightarrow>
   handle_meeting_join e m p w =
     (Inr (), w\<lparr>active_meetings := (active_meetings w)(m \<mapsto>
                  mt\<lparr>participants := participants mt @ [p]\<rparr>),
                participant_cache := (participant_cache w)(m \<mapsto> insert (id_str p) S),
                tts_requests := tts_requests w @ [greeting_sent e p]\<rparr>)"
  by (simp add: handle_meeting_join_def handle_meeting_join_body_def init_meeting_def
      generate_and_play_greeting_eq log_bot_activity_def Let_def)

lemma join_dup:
  "active_meetings w m = Some mt \<Longrightarrow> participant_cache w m = Some S \<Longrightarrow> id_str p \<in> S \<Longrightarrow>
   handle_meeting_join e m p w = (Inr (), w)"
  by (simp add: handle_meeting_join_def handle_meeting_join_body_def init_meeting_def Let_def)

lemma join_nocache:
  "active_meetings w m = Some mt \<Longrightarrow> participant_cache w m = None \<Longrightarrow>
   handle_meeting_join e m p w = (Inr (), w)"
  by (simp add: handle_meeting_join_def handle_meeting_join_body_def init_meeting_def Let_def)

lemma leave_unknown:
  "active_meetings w m = None \<Longrightarrow> handle_meeting_leave m pid w = (Inr (), w)"
  by (simp add: handle_meeting_leave_def handle_meeting_leave_body_def)

lemma cleanup_eq:
  "cleanup_meeting m w =
     (Inr (), w\<lparr>active_meetings := (active_meetings w)(m := None),
                participant_cache := (participant_cache w)(m := None),
                conversation_references := (conversation_references w)(m := None)\<rparr>)"
  by (simp add: cleanup_meeting_def Let_def fun_upd_idem)

lemma leave_last:
  "active_meetings w m = Some mt \<Longrightarrow> filter (\<lambda>p. id_str p \<noteq> pid) (participants mt) = [] \<Longrightarrow>
   handle_meeting_leave m pid w =
     (Inr (),
        w\<lparr>active_meetings := (active_meetings w)(m := None),
          participant_cache := (participant_cache w)(m := None),
          conversation_references := (conversation_references w)(m := None)\<rparr>)"
  by (simp add: handle_meeting_leave_def handle_meeting_leave_body_def cleanup_eq
      log_bot_activity_def Let_def split: option.splits)

lemma leave_some:
  "active_meetings w m = Some mt \<Longrightarrow> filter (\<lambda>p. id_str p \<noteq> pid) (participants mt) \<noteq> [] \<Longrightarrow>
   handle_meeting_leave m pid w =
     (Inr (),
        w\<lparr>active_meetings := (active_meetings w)(m \<mapsto>
              mt\<lparr>participants := filter (\<lambda>p. id_str p \<noteq> pid) (participants mt)\<rparr>),
          participant_cache :=
            (case participant_cache w m of None \<Rightarrow> participant_cache w
             | Some S \<Rightarrow> (participant_cache w)(m \<mapsto> S - {pid}))\<rparr>)"
  by (simp add: handle_meeting_leave_def handle_meeting_leave_body_def
      log_bot_activity_def Let_def split: option.splits)


section \<open>The invariant holds in every reachable state\<close>

lemma tracker_inv_init: "tracker_inv init_world"
  by (simp add: tracker_inv_def index_consistent_def init_world_def)

lemma tracker_inv_cache:
  "tracker_inv w \<Longrightarrow> active_meetings w m = Some mt \<Longrightarrow>
   participant_cache w m = Some (set (participant_ids mt))"
  by (simp add: tracker_inv_def index_consistent_def)

lemma tracker_inv_join:
  assumes inv: "tracker_inv w"
  shows "tracker_inv (snd (handle_meeting_join e m p w))"
proof (cases "active_meetings w m")
  case None
  with inv show ?thesis
    by (simp add: join_unknown tracker_inv_def index_consistent_def participant_ids_def)
next
  case (Some mt)
  note c = tracker_inv_cache [OF inv Some]
  show ?thesis
  proof (cases "id_str p \<in> set (participant_ids mt)")
    case True
    with inv Some c show ?thesis by (simp add: join_dup)
  next
    case False
    with inv Some c show ?thesis
      by (auto simp add: join_new tracker_inv_def index_consistent_def participant_ids_def)
  qed
qed

lemma tracker_inv_leave:
  assumes inv: "tracker_inv w"
  shows "tracker_inv (snd (handle_meeting_leave m pid w))"
proof (cases "active_meetings w m")
  case None
  with inv show ?thesis by (simp add: leave_unknown)
next
  case (Some mt)
  note c = tracker_inv_cache [OF inv Some]
  show ?thesis
  proof (cases "filter (\<lambda>p. id_str p \<noteq> pid) (participants mt) = []")
    case True
    with inv Some show ?thesis
      by (simp add: leave_last tracker_inv_def index_consistent_def)
  next
    case False
    have ids: "map id_str (filter (\<lambda>p. id_str p \<noteq> pid) (participants mt)) =
        filter (\<lambda>i. i \<noteq> pid) (map id_str (participants mt))"
      by (simp add: filter_map comp_def)
    from inv Some have d: "distinct (map id_str (participants mt))"
      by (simp add: tracker_inv_def index_consistent_def participant_ids_def)
    from False inv Some c d show ?thesis
      by (auto simp add: leave_some tracker_inv_def index_consistent_def participant_ids_def ids)
  qed
qed

lemma tracker_inv_cleanup: "tracker_inv w \<Longrightarrow> tracker_inv (snd (cleanup_meeting m w))"
  by (simp add: cleanup_eq tracker_inv_def index_consistent_def)

lemma tracker_inv_add_reference:
  "tracker_inv w \<Longrightarrow> tracker_inv (add_conversation_reference m r w)"
  by (simp add: add_conversation_reference_def tracker_inv_def index_consistent_def)

lemma reachable_tracker_inv: "reachable w \<Longrightarrow> tracker_inv w"
  by (induction rule: reachable.induct)
    (simp_all add: tracker_inv_init tracker_inv_join tracker_inv_leave tracker_inv_cleanup
      tracker_inv_add_reference)


section \<open>The formatter on well-formed templates\<close>

text \<open>Escaped literal text is copied, a name field is replaced by the name, and so a
  template made of such parts is formatted to its interpolation.\<close>

lemma followed_by_append: "followed_by u (followed_by v r) = followed_by (u @ v) r"
  by (simp add: followed_by_def split: option.splits sum.splits)

lemma followed_by_Nil: "followed_by [] r = r"
  by (simp add: followed_by_def split: option.splits sum.splits)

lemma field_value_name: "field_value ''name'' n = Some (Inr n)"
  by (simp add: field_value_def is_digit_def decimal_value_def)

lemma format_escaped:
  "format_from None (escape_braces s @ rest) n = followed_by s (format_from None rest n)"
proof (induction s)
  case Nil
  show ?case by (simp add: followed_by_Nil)
next
  case (Cons c s)
  show ?case
  proof (cases "c = CHR ''{''")
    case True
    then show ?thesis using Cons by (simp add: followed_by_append)
  next
    case False
    note nl = this
    show ?thesis
    proof (cases "c = CHR ''}''")
      case True
      then show ?thesis using Cons by (simp add: followed_by_append)
    next
      case False
      with nl Cons show ?thesis by (simp add: followed_by_append)
    qed
  qed
qed

lemma format_name_field:
  "format_from None (''{name}'' @ rest) n = followed_by n (format_from None rest n)"
  by (simp add: field_value_name)

lemma format_name_template:
  "format_name (template_text ps) n = Some (Inr (interpolated ps n))"
  unfolding format_name_def
proof (induction ps)
  case Nil
  show ?case by simp
next
  case (Cons p ps)
  show ?case
  proof (cases p)
    case (Lit s)
    with Cons show ?thesis by (simp add: format_escaped followed_by_def)
  next
    case NameField
    with Cons show ?thesis
      by (simp only: template_text.simps interpolated.simps format_name_field)
        (simp add: followed_by_def)
  qed
qed

lemma format_name_examples:
  "format_name ''{a]}'' ''Ana'' = Some (Inl (KeyError ''a]''))"
  "format_name ''{12a}'' ''Ana'' = Some (Inl (KeyError ''12a''))"
  "format_name ''{}'' ''Ana'' = Some (Inl IndexError)"
  "format_name ''{9223372036854775807}'' ''Ana'' = Some (Inl IndexError)"
  "format_name ''{9223372036854775808}'' ''Ana'' = Some (Inl ValueError)"
  "format_name ''{x[}]}'' ''Ana'' = Some (Inl (KeyError ''x''))"
  "format_name ''{na{me}'' ''Ana'' = Some (Inl ValueError)"
  "format_name ''{name}}}'' ''Ana'' = Some (Inr ''Ana}'')"
  "format_name ''{name!r}'' ''Ana'' = None"
  "format_name ''{name[0]}'' ''Ana'' = None"
  by (simp_all add: format_name_def field_value_def is_digit_def decimal_value_def
      followed_by_def)

section \<open>Greeting text and voice\<close>

text \<open>
  C9.  The voice lookup gives the four supported languages pt-BR, en-US, es-ES and fr-FR
  four pairwise distinct voices, and every language outside those four gets the voice of
  pt-BR.
\<close>

theorem selected_voice_distinct_default:
  "distinct (map selected_voice [''pt-BR'', ''en-US'', ''es-ES'', ''fr-FR'']) \<and>
   (\<forall>lang. lang \<notin> set [''pt-BR'', ''en-US'', ''es-ES'', ''fr-FR''] \<longrightarrow>
      selected_voice lang = selected_voice ''pt-BR'')"
  by (simp add: selected_voice_def voice_mapping_def)

theorem selected_voice_distinct_default_witness:
  "''de-DE'' \<notin> set [''pt-BR'', ''en-US'', ''es-ES'', ''fr-FR''] \<and>
   selected_voice ''de-DE'' = selected_voice ''pt-BR'' \<and> selected_voice ''pt-BR'' = ''alloy''"
proof -
  have h: "''de-DE'' \<notin> set [''pt-BR'', ''en-US'', ''es-ES'', ''fr-FR'']" by simp
  from selected_voice_distinct_default h
  have "selected_voice ''de-DE'' = selected_voice ''pt-BR''" by blast
  with h show ?thesis by (simp add: selected_voice_def voice_mapping_def)
qed

text \<open>
  C8, as stated, fails at two templates.  A template that is given but empty is not
  interpolated (the result would be the empty text): the test on \<open>custom_message\<close> is a
  truthiness test, and the canned phrase of the language is returned instead.  And a
  template with an unclosed brace is not returned with anything interpolated:
  \<open>str.format\<close> raises a ValueError.
\<close>

theorem generate_greeting_text_template_counterexample:
  "template_text [] = [] \<and>
   generate_greeting_text env_ok
     \<lparr>participant_name = ''Ana'', language = ''en-US'', custom_message = Some []\<rparr> =
   Inr ''Good morning, Ana'' \<and>
   generate_greeting_text env_ok
     \<lparr>participant_name = ''Ana'', language = ''en-US'', custom_message = Some []\<rparr> \<noteq>
   Inr (interpolated [] ''Ana'') \<and>
   generate_greeting_text env_ok
     \<lparr>participant_name = ''Ana'', language = ''en-US'', custom_message = Some ''Hi {''\<rparr> =
   Inl ValueError"
  by (simp add: generate_greeting_text_def truthy_def greetings_def format_name_def
      followed_by_def)

text \<open>
  C8, amended.  When a template is given, is not empty and is well formed with \<open>{name}\<close>
  as its only replacement field (literal text, \<open>{{\<close> and \<open>}}\<close> for the braces, and fields
  \<open>{name}\<close>), the greeting text is the template with the participant name in place of
  every \<open>{name}\<close>.  When the template is absent or empty, the result is the canned phrase
  of the language from the table of four entries (pt-BR, en-US, es-ES, fr-FR), and the
  pt-BR phrase for every language outside those four.  For the name Ana, the language
  en-US and no template the result is always the greeting \<open>Good morning, Ana\<close>.
\<close>

theorem generate_greeting_text_selects:
  "(\<forall>ps. custom_message r = Some (template_text ps) \<and> template_text ps \<noteq> [] \<longrightarrow>
      generate_greeting_text e r = Inr (interpolated ps (participant_name r))) \<and>
   (custom_message r = None \<or> custom_message r = Some [] \<longrightarrow>
      (language r = ''pt-BR'' \<longrightarrow>
         generate_greeting_text e r = Inr (''Bom dia, '' @ participant_name r)) \<and>
      (language r = ''en-US'' \<longrightarrow>
         generate_greeting_text e r = Inr (''Good morning, '' @ participant_name r)) \<and>
      (language r = ''es-ES'' \<longrightarrow>
         generate_greeting_text e r =
           Inr (''Buenos d'' @ [CHR 0xC3, CHR 0xAD] @ ''as, '' @ participant_name r)) \<and>
      (language r = ''fr-FR'' \<longrightarrow>
         generate_greeting_text e r = Inr (''Bonjour, '' @ participant_name r)) \<and>
      (language r \<notin> set [''pt-BR'', ''en-US'', ''es-ES'', ''fr-FR''] \<longrightarrow>
         generate_greeting_text e r = Inr (''Bom dia, '' @ participant_name r))) \<and>
   generate_greeting_text e
     \<lparr>participant_name = ''Ana'', language = ''en-US'', custom_message = None\<rparr> =
   Inr ''Good morning, Ana''"
proof -
  have a: "\<forall>ps. custom_message r = Some (template_text ps) \<and> template_text ps \<noteq> [] \<longrightarrow>
      generate_greeting_text e r = Inr (interpolated ps (participant_name r))"
    by (simp add: generate_greeting_text_def truthy_def format_name_template)
  have t: "custom_message r = None \<or> custom_message r = Some [] \<Longrightarrow>
      truthy (custom_message r) = None"
    by (auto simp add: truthy_def)
  have b: "custom_message r = None \<or> custom_message r = Some [] \<Longrightarrow>
      generate_greeting_text e r =
        Inr (greeting_phrase (participant_name r) (language r))"
    by (simp add: generate_greeting_text_def t greetings_default greeting_phrase_def
        split: option.splits)
  have c: "generate_greeting_text e
     \<lparr>participant_name = ''Ana'', language = ''en-US'', custom_message = None\<rparr> =
     Inr ''Good morning, Ana''"
    by (simp add: generate_greeting_text_def truthy_def greetings_def)
  show ?thesis
    using a b c by (simp add: greeting_phrase_def greetings_def)
qed

theorem generate_greeting_text_selects_witness:
  "template_text [Lit ''Hello, '', NameField, Lit ''!''] = ''Hello, {name}!'' \<and>
   generate_greeting_text env_ok
     \<lparr>participant_name = ''Ana'', language = ''fr-FR'', custom_message = Some ''Hello, {name}!''\<rparr> =
     Inr ''Hello, Ana!'' \<and>
   generate_greeting_text env_ok
     \<lparr>participant_name = ''Ana'', language = ''de-DE'', custom_message = None\<rparr> =
     Inr ''Bom dia, Ana''"
proof -
  let ?ps = "[Lit ''Hello, '', NameField, Lit ''!'']"
  let ?r = "\<lparr>participant_name = ''Ana'', language = ''fr-FR'',
              custom_message = Some ''Hello, {name}!''\<rparr>"
  have t: "template_text ?ps = ''Hello, {name}!''" by simp
  have i: "interpolated ?ps ''Ana'' = ''Hello, Ana!''" by simp
  from generate_greeting_text_selects [of ?r env_ok]
  have "custom_message ?r = Some (template_text ?ps) \<and> template_text ?ps \<noteq> [] \<longrightarrow>
      generate_greeting_text env_ok ?r = Inr (interpolated ?ps (participant_name ?r))"
    by blast
  with t i have one: "generate_greeting_text env_ok ?r = Inr ''Hello, Ana!''" by simp
  from generate_greeting_text_selects
      [of "\<lparr>participant_name = ''Ana'', language = ''de-DE'', custom_message = None\<rparr>" env_ok]
  have two: "generate_greeting_text env_ok
     \<lparr>participant_name = ''Ana'', language = ''de-DE'', custom_message = None\<rparr> =
     Inr ''Bom dia, Ana''"
    by simp
  from t one two show ?thesis by simp
qed

section \<open>Helper facts about joins\<close>




lemma join_ana_start:
  "snd (handle_meeting_join env_ok ''m1'' ana init_world) =
     \<lparr>active_meetings = [''m1'' \<mapsto>
          \<lparr>meeting_id = ''m1'', organizer_id = ''unknown'', subject = None,
           participants = [ana], started_at = Some 100\<rparr>],
      participant_cache = [''m1'' \<mapsto> {''p1''}],
      conversation_references = Map.empty,
      tts_requests = [(''Bom dia, Ana'', ''alloy'')]\<rparr>"
  by (simp add: join_unknown init_world_def greeting_sent_def greeting_phrase_def greetings_def
      selected_voice_def voice_mapping_def env_ok_def ana_def)

lemma join_rui_after_ana:
  "snd (handle_meeting_join env_failing ''m1'' rui
          (snd (handle_meeting_join env_ok ''m1'' ana init_world))) =
     \<lparr>active_meetings = [''m1'' \<mapsto>
          \<lparr>meeting_id = ''m1'', organizer_id = ''unknown'', subject = None,
           participants = [ana, rui], started_at = Some 100\<rparr>],
      participant_cache = [''m1'' \<mapsto> {''p1'', ''p2''}],
      conversation_references = Map.empty,
      tts_requests = [(''Bom dia, Ana'', ''alloy''), (''Bom dia, Rui'', ''alloy'')]\<rparr>"
proof -
  have "handle_meeting_join env_failing ''m1'' rui
          \<lparr>active_meetings = [''m1'' \<mapsto>
          \<lparr>meeting_id = ''m1'', organizer_id = ''unknown'', subject = None,
           participants = [ana], started_at = Some 100\<rparr>],
      participant_cache = [''m1'' \<mapsto> {''p1''}],
      conversation_references = Map.empty,
      tts_requests = [(''Bom dia, Ana'', ''alloy'')]\<rparr> = (Inr (), 
     \<lparr>active_meetings = [''m1'' \<mapsto>
          \<lparr>meeting_id = ''m1'', organizer_id = ''unknown'', subject = None,
           participants = [ana, rui], started_at = Some 100\<rparr>],
      participant_cache = [''m1'' \<mapsto> {''p1'', ''p2''}],
      conversation_references = Map.empty,
      tts_requests = [(''Bom dia, Ana'', ''alloy''), (''Bom dia, Rui'', ''alloy'')]\<rparr>)"
    by (subst join_new [where S = "{''p1''}"])
      (auto simp add: greeting_sent_def greeting_phrase_def greetings_def
        selected_voice_def voice_mapping_def env_ok_def env_failing_def rui_def)
  then show ?thesis by (simp add: join_ana_start)
qed

lemma leave_rui_after_ana:
  "active_meetings
     (snd (handle_meeting_leave ''m1'' ''p2''
        (snd (handle_meeting_join env_failing ''m1'' rui
           (snd (handle_meeting_join env_ok ''m1'' ana init_world)))))) ''m1'' =
   Some \<lparr>meeting_id = ''m1'', organizer_id = ''unknown'', subject = None,
         participants = [ana], started_at = Some 100\<rparr>"
proof -
  let ?mt = "\<lparr>meeting_id = ''m1'', organizer_id = ''unknown'', subject = None,
           participants = [ana, rui], started_at = Some 100\<rparr>"
  let ?w = "snd (handle_meeting_join env_failing ''m1'' rui
           (snd (handle_meeting_join env_ok ''m1'' ana init_world)))"
  have a: "active_meetings ?w ''m1'' = Some ?mt" by (simp add: join_rui_after_ana)
  have f: "filter (\<lambda>p. id_str p \<noteq> ''p2'') [ana, rui] = [ana]"
    by (simp add: ana_def rui_def)
  then have ne: "filter (\<lambda>p. id_str p \<noteq> ''p2'') (participants ?mt) \<noteq> []" by simp
  show ?thesis by (simp add: leave_some [OF a ne] f del: filter.simps)
qed

lemma leave_removes:
  "(\<forall>mt. active_meetings (snd (handle_meeting_leave m pid w)) m = Some mt \<longrightarrow>
      pid \<notin> set (participant_ids mt)) \<and>
   (active_meetings w m \<noteq> None \<longrightarrow>
     (\<forall>S. participant_cache (snd (handle_meeting_leave m pid w)) m = Some S \<longrightarrow> pid \<notin> S))"
proof (cases "active_meetings w m")
  case None
  then show ?thesis by (simp add: leave_unknown)
next
  case (Some mt)
  show ?thesis
  proof (cases "filter (\<lambda>p. id_str p \<noteq> pid) (participants mt) = []")
    case True
    with Some show ?thesis by (simp add: leave_last)
  next
    case False
    with Some show ?thesis
      by (auto simp add: leave_some participant_ids_def split: option.splits)
  qed
qed

lemma join_keeps_known:
  "active_meetings (snd (handle_meeting_join e m p w)) m \<noteq> None"
proof (cases "active_meetings w m")
  case None
  then show ?thesis by (simp add: join_unknown)
next
  case (Some mt)
  show ?thesis
  proof (cases "participant_cache w m")
    case None
    with Some show ?thesis by (simp add: join_nocache)
  next
    case (Some S)
    with \<open>active_meetings w m = Some mt\<close> show ?thesis
      by (cases "id_str p \<in> S") (simp_all add: join_dup join_new)
  qed
qed

lemma join_returns: "fst (handle_meeting_join e m p w) = Inr ()"
  by (cases "handle_meeting_join_body e m p w" rule: prod.exhaust)
    (simp add: handle_meeting_join_def split: sum.splits)

lemma speech_failure_raises:
  "custom_message r = None \<Longrightarrow>
   speech_create e (greeting_phrase (participant_name r) (language r))
     (selected_voice (language r)) = Inl x \<Longrightarrow>
   fst (generate_greeting_audio e r w) = Inl x"
  by (simp add: generate_greeting_audio_def generate_greeting_text_None
      generate_speech_audio_def Let_def)

section \<open>The membership tracker: the claims\<close>



text \<open>
  C2.  In every state reachable from the empty tracker by joins, leaves, cleanups and
  updates of a conversation reference, each active meeting has a cache entry, the set of
  that entry is exactly the set of the ids in the participant list of the meeting, and
  the list holds no id twice.
\<close>

theorem reachable_index_matches_list:
  assumes "reachable w"
  shows "\<forall>m mt. active_meetings w m = Some mt \<longrightarrow>
           (\<exists>S. participant_cache w m = Some S \<and> S = set (map id_str (participants mt))) \<and>
           distinct (map id_str (participants mt))"
proof -
  from assms have "tracker_inv w" by (rule reachable_tracker_inv)
  then show ?thesis
    by (simp add: tracker_inv_def index_consistent_def participant_ids_def)
qed

theorem reachable_index_matches_list_witness:
  "reachable (snd (handle_meeting_join env_ok ''m1'' ana init_world)) \<and>
   active_meetings (snd (handle_meeting_join env_ok ''m1'' ana init_world)) ''m1'' =
     Some \<lparr>meeting_id = ''m1'', organizer_id = ''unknown'', subject = None,
           participants = [ana], started_at = Some 100\<rparr> \<and>
   participant_cache (snd (handle_meeting_join env_ok ''m1'' ana init_world)) ''m1'' =
     Some {id_str ana}"
proof -
  let ?w = "snd (handle_meeting_join env_ok ''m1'' ana init_world)"
  have r: "reachable ?w" by (rule reachable.join [OF reachable.start])
  have a: "active_meetings ?w ''m1'' =
     Some \<lparr>meeting_id = ''m1'', organizer_id = ''unknown'', subject = None,
           participants = [ana], started_at = Some 100\<rparr>"
    by (simp add: join_ana_start)
  from reachable_index_matches_list [OF r] a
  have "participant_cache ?w ''m1'' = Some {id_str ana}" by fastforce
  with r a show ?thesis by simp
qed

text \<open>
  C3.  After a join of \<open>p\<close> to \<open>m\<close> and a leave of the id of \<open>p\<close> from \<open>m\<close>, from any state,
  that id is in neither the participant list nor the cache entry of \<open>m\<close> (where they
  still exist).  And whenever a leave empties the participant list of a meeting, the
  meeting, its cache entry and its conversation reference are all removed.
\<close>

theorem join_then_leave_removes:
  "(let w1 = snd (handle_meeting_join e m p w);
        w2 = snd (handle_meeting_leave m (id_str p) w1)
    in (\<forall>mt. active_meetings w2 m = Some mt \<longrightarrow> id_str p \<notin> set (map id_str (participants mt))) \<and>
       (\<forall>S. participant_cache w2 m = Some S \<longrightarrow> id_str p \<notin> S)) \<and>
   (\<forall>mt. active_meetings w' m' = Some mt \<and>
          filter (\<lambda>q. id_str q \<noteq> pid) (participants mt) = [] \<longrightarrow>
      (let w3 = snd (handle_meeting_leave m' pid w')
       in active_meetings w3 m' = None \<and> participant_cache w3 m' = None \<and>
          conversation_references w3 m' = None))"
proof -
  let ?w1 = "snd (handle_meeting_join e m p w)"
  have k: "active_meetings ?w1 m \<noteq> None" by (rule join_keeps_known)
  have a: "(\<forall>mt. active_meetings (snd (handle_meeting_leave m (id_str p) ?w1)) m = Some mt \<longrightarrow>
      id_str p \<notin> set (map id_str (participants mt))) \<and>
     (\<forall>S. participant_cache (snd (handle_meeting_leave m (id_str p) ?w1)) m = Some S \<longrightarrow>
        id_str p \<notin> S)"
    using leave_removes [of m "id_str p" ?w1] k by (simp add: participant_ids_def)
  have b: "\<forall>mt. active_meetings w' m' = Some mt \<and>
          filter (\<lambda>q. id_str q \<noteq> pid) (participants mt) = [] \<longrightarrow>
      (let w3 = snd (handle_meeting_leave m' pid w')
       in active_meetings w3 m' = None \<and> participant_cache w3 m' = None \<and>
          conversation_references w3 m' = None)"
    by (simp add: leave_last Let_def)
  from a b show ?thesis by (simp add: Let_def)
qed

theorem join_then_leave_removes_witness:
  "(let w1 = snd (handle_meeting_join env_ok ''m1'' ana init_world)
    in active_meetings w1 ''m1'' =
         Some \<lparr>meeting_id = ''m1'', organizer_id = ''unknown'', subject = None,
               participants = [ana], started_at = Some 100\<rparr> \<and>
       filter (\<lambda>q. id_str q \<noteq> ''p1'') [ana] = [] \<and>
       (let w3 = snd (handle_meeting_leave ''m1'' ''p1'' w1)
        in active_meetings w3 ''m1'' = None \<and> participant_cache w3 ''m1'' = None \<and>
           conversation_references w3 ''m1'' = None) \<and>
       (let w4 = snd (handle_meeting_join env_failing ''m1'' rui w1);
            w5 = snd (handle_meeting_leave ''m1'' (id_str rui) w4)
        in active_meetings w5 ''m1'' =
             Some \<lparr>meeting_id = ''m1'', organizer_id = ''unknown'', subject = None,
                   participants = [ana], started_at = Some 100\<rparr> \<and>
           id_str rui \<notin> set (map id_str [ana])))"
proof -
  let ?w1 = "snd (handle_meeting_join env_ok ''m1'' ana init_world)"
  let ?mt = "\<lparr>meeting_id = ''m1'', organizer_id = ''unknown'', subject = None,
           participants = [ana], started_at = Some 100\<rparr>"
  have a: "active_meetings ?w1 ''m1'' = Some ?mt"
    by (simp add: join_ana_start)
  have f: "filter (\<lambda>q. id_str q \<noteq> ''p1'') [ana] = []" by (simp add: ana_def)
  have i: "id_str rui = ''p2''" by (simp add: rui_def)
  have l: "active_meetings
     (snd (handle_meeting_leave ''m1'' (id_str rui)
        (snd (handle_meeting_join env_failing ''m1'' rui ?w1)))) ''m1'' = Some ?mt"
    by (simp add: i leave_rui_after_ana)
  from join_then_leave_removes [of env_failing "''m1''" rui ?w1 ?w1 "''m1''" "''p1''"] l
  have n: "id_str rui \<notin> set (map id_str (participants ?mt))"
    unfolding Let_def by blast
  from join_then_leave_removes [of env_failing "''m1''" rui ?w1 ?w1 "''m1''" "''p1''"] a f
  have c: "let w3 = snd (handle_meeting_leave ''m1'' ''p1'' ?w1)
        in active_meetings w3 ''m1'' = None \<and> participant_cache w3 ''m1'' = None \<and>
           conversation_references w3 ''m1'' = None"
    by (simp add: Let_def)
  from a f c l n show ?thesis by (simp add: Let_def)
qed

text \<open>
  C4.  A failed greeting is isolated.  The dispatcher returns normally for every
  behaviour of the outside world, and so does the join.  When the text-to-speech call
  raises, the audio generation inside the dispatcher raises that exception; and whenever
  a join reaches the greeting step (the meeting is new, or the id is not in its cache
  entry), the participant is in the list and the id in the cache entry afterwards, with
  the one request recorded, whatever the outcome of the greeting.
\<close>

theorem greeting_failure_isolated:
  "fst (generate_and_play_greeting e m p w) = Inr () \<and>
   fst (handle_meeting_join e m p w) = Inr () \<and>
   (speech_create e (fst (greeting_sent e p)) (snd (greeting_sent e p)) = Inl x \<longrightarrow>
      fst (generate_greeting_audio e
             \<lparr>participant_name = display_name p, language = default_greeting_language e,
              custom_message = None\<rparr> w0) = Inl x) \<and>
   (active_meetings w m = None \<or>
    (\<exists>mt S. active_meetings w m = Some mt \<and> participant_cache w m = Some S \<and> id_str p \<notin> S) \<longrightarrow>
      (let w1 = snd (handle_meeting_join e m p w)
       in \<exists>mt1 S1. active_meetings w1 m = Some mt1 \<and> p \<in> set (participants mt1) \<and>
            participant_cache w1 m = Some S1 \<and> id_str p \<in> S1 \<and>
            tts_requests w1 = tts_requests w @ [greeting_sent e p]))"
proof -
  have a: "fst (generate_and_play_greeting e m p w) = Inr ()"
    by (simp add: generate_and_play_greeting_eq)
  have b: "fst (handle_meeting_join e m p w) = Inr ()" by (rule join_returns)
  have c: "speech_create e (fst (greeting_sent e p)) (snd (greeting_sent e p)) = Inl x \<longrightarrow>
      fst (generate_greeting_audio e
             \<lparr>participant_name = display_name p, language = default_greeting_language e,
              custom_message = None\<rparr> w0) = Inl x"
    by (simp add: speech_failure_raises greeting_sent_def)
  have d1: "active_meetings w m = None \<Longrightarrow>
      (let w1 = snd (handle_meeting_join e m p w)
       in \<exists>mt1 S1. active_meetings w1 m = Some mt1 \<and> p \<in> set (participants mt1) \<and>
            participant_cache w1 m = Some S1 \<and> id_str p \<in> S1 \<and>
            tts_requests w1 = tts_requests w @ [greeting_sent e p])"
    by (simp add: join_unknown)
  have d2: "\<exists>mt S. active_meetings w m = Some mt \<and> participant_cache w m = Some S \<and> id_str p \<notin> S \<Longrightarrow>
      (let w1 = snd (handle_meeting_join e m p w)
       in \<exists>mt1 S1. active_meetings w1 m = Some mt1 \<and> p \<in> set (participants mt1) \<and>
            participant_cache w1 m = Some S1 \<and> id_str p \<in> S1 \<and>
            tts_requests w1 = tts_requests w @ [greeting_sent e p])"
    by (auto simp add: join_new)
  from a b c d1 d2 show ?thesis by blast
qed

theorem greeting_failure_isolated_witness:
  "speech_create env_failing (fst (greeting_sent env_failing ana))
      (snd (greeting_sent env_failing ana)) = Inl (ExternalError ''timeout'') \<and>
   fst (generate_greeting_audio env_failing
          \<lparr>participant_name = display_name ana,
           language = default_greeting_language env_failing,
           custom_message = None\<rparr> init_world) = Inl (ExternalError ''timeout'') \<and>
   active_meetings init_world ''m1'' = None \<and>
   fst (handle_meeting_join env_failing ''m1'' ana init_world) = Inr () \<and>
   (let w1 = snd (handle_meeting_join env_failing ''m1'' ana init_world)
    in \<exists>mt1 S1. active_meetings w1 ''m1'' = Some mt1 \<and> ana \<in> set (participants mt1) \<and>
         participant_cache w1 ''m1'' = Some S1 \<and> id_str ana \<in> S1)"
proof -
  have f: "speech_create env_failing (fst (greeting_sent env_failing ana))
      (snd (greeting_sent env_failing ana)) = Inl (ExternalError ''timeout'')"
    by (simp add: env_failing_def)
  have n: "active_meetings init_world ''m1'' = None" by (simp add: init_world_def)
  from greeting_failure_isolated
    [of env_failing "''m1''" ana init_world "ExternalError ''timeout''" init_world] f n
  show ?thesis by (simp add: Let_def) blast
qed

text \<open>
  C5.  After the leave of the last participant (every entry of the list has the id that
  leaves), \<open>get_meeting_info\<close> finds no meeting.  A join to a meeting that is not known
  first creates the record with the start time read at that join, the organizer
  \<open>unknown\<close>, no participant and an empty cache entry; when the join returns, the record
  holds exactly the participant that joined, the cache entry holds its id, and the start
  time is the one of this join, so it differs from the start time of any earlier record
  that was created at another time.
\<close>

theorem meeting_recreated_fresh:
  "(\<forall>mt. active_meetings w m = Some mt \<and> (\<forall>q \<in> set (participants mt). id_str q = pid) \<longrightarrow>
      get_meeting_info (snd (handle_meeting_leave m pid w)) m = None) \<and>
   (get_meeting_info w' m = None \<longrightarrow>
      (let w0 = init_meeting e m w'
       in (\<exists>mt0. active_meetings w0 m = Some mt0 \<and> started_at mt0 = Some (utcnow e) \<and>
             organizer_id mt0 = ''unknown'' \<and> participants mt0 = []) \<and>
          participant_cache w0 m = Some {}) \<and>
      (let w1 = snd (handle_meeting_join e m p w')
       in \<exists>mt1. get_meeting_info w1 m = Some mt1 \<and> started_at mt1 = Some (utcnow e) \<and>
            organizer_id mt1 = ''unknown'' \<and> meeting_id mt1 = m \<and> subject mt1 = None \<and>
            participants mt1 = [p] \<and> participant_cache w1 m = Some {id_str p} \<and>
            (\<forall>old. started_at old \<noteq> Some (utcnow e) \<longrightarrow> started_at mt1 \<noteq> started_at old)))"
proof -
  have a: "\<forall>mt. active_meetings w m = Some mt \<and> (\<forall>q \<in> set (participants mt). id_str q = pid) \<longrightarrow>
      get_meeting_info (snd (handle_meeting_leave m pid w)) m = None"
    by (simp add: leave_last get_meeting_info_def filter_empty_conv)
  have b: "get_meeting_info w' m = None \<Longrightarrow>
      (let w0 = init_meeting e m w'
       in (\<exists>mt0. active_meetings w0 m = Some mt0 \<and> started_at mt0 = Some (utcnow e) \<and>
             organizer_id mt0 = ''unknown'' \<and> participants mt0 = []) \<and>
          participant_cache w0 m = Some {})"
    by (simp add: get_meeting_info_def init_meeting_def)
  have c: "get_meeting_info w' m = None \<Longrightarrow>
      (let w1 = snd (handle_meeting_join e m p w')
       in \<exists>mt1. get_meeting_info w1 m = Some mt1 \<and> started_at mt1 = Some (utcnow e) \<and>
            organizer_id mt1 = ''unknown'' \<and> meeting_id mt1 = m \<and> subject mt1 = None \<and>
            participants mt1 = [p] \<and> participant_cache w1 m = Some {id_str p} \<and>
            (\<forall>old. started_at old \<noteq> Some (utcnow e) \<longrightarrow> started_at mt1 \<noteq> started_at old))"
    by (simp add: get_meeting_info_def join_unknown)
  from a b c show ?thesis by blast
qed

theorem meeting_recreated_fresh_witness:
  "(let w1 = snd (handle_meeting_join env_ok ''m1'' ana init_world);
        w2 = snd (handle_meeting_leave ''m1'' ''p1'' w1);
        w3 = snd (handle_meeting_join env_failing ''m1'' rui w2)
    in (\<exists>mt. active_meetings w1 ''m1'' = Some mt \<and> (\<forall>q \<in> set (participants mt). id_str q = ''p1'') \<and>
              started_at mt = Some 100) \<and>
       get_meeting_info w2 ''m1'' = None \<and>
       (\<exists>mt3. get_meeting_info w3 ''m1'' = Some mt3 \<and> started_at mt3 = Some 200 \<and>
           organizer_id mt3 = ''unknown'' \<and> participants mt3 = [rui] \<and>
           participant_cache w3 ''m1'' = Some {''p2''}))"
proof -
  let ?w1 = "snd (handle_meeting_join env_ok ''m1'' ana init_world)"
  let ?w2 = "snd (handle_meeting_leave ''m1'' ''p1'' ?w1)"
  let ?mt = "\<lparr>meeting_id = ''m1'', organizer_id = ''unknown'', subject = None,
           participants = [ana], started_at = Some 100\<rparr>"
  have a1: "active_meetings ?w1 ''m1'' = Some ?mt" by (simp add: join_ana_start)
  have a2: "\<forall>q \<in> set (participants ?mt). id_str q = ''p1''" by (simp add: ana_def)
  note a = conjI [OF a1 a2]
  from meeting_recreated_fresh [of ?w1 "''m1''" "''p1''"] a
  have n: "get_meeting_info ?w2 ''m1'' = None" by blast
  have u: "utcnow env_failing = 200" by (simp add: env_failing_def env_ok_def)
  have i: "id_str rui = ''p2''" by (simp add: rui_def)
  from meeting_recreated_fresh [of ?w1 "''m1''" "''p1''" ?w2 env_failing rui] n
  have "\<exists>mt3. get_meeting_info (snd (handle_meeting_join env_failing ''m1'' rui ?w2)) ''m1'' = Some mt3 \<and>
           started_at mt3 = Some (utcnow env_failing) \<and>
           organizer_id mt3 = ''unknown'' \<and> participants mt3 = [rui] \<and>
           participant_cache (snd (handle_meeting_join env_failing ''m1'' rui ?w2)) ''m1'' =
             Some {id_str rui}"
    unfolding Let_def by blast
  with a1 a2 n u i show ?thesis by (simp add: Let_def)
qed

text \<open>
  C6.  From the empty tracker, the join of \<open>p1\<close> to \<open>m1\<close>, the join of \<open>p2\<close> to \<open>m1\<close> and
  the leave of the id of \<open>p1\<close>, for two participants with distinct ids, leave \<open>m1\<close> active
  with the participant list \<open>[p2]\<close> and the cache entry that holds exactly the id of \<open>p2\<close>.
\<close>

theorem two_join_one_leave:
  assumes "id_str p1 \<noteq> id_str p2"
  shows "let w1 = snd (handle_meeting_join e1 ''m1'' p1 init_world);
             w2 = snd (handle_meeting_join e2 ''m1'' p2 w1);
             w3 = snd (handle_meeting_leave ''m1'' (id_str p1) w2)
         in (\<exists>mt. active_meetings w3 ''m1'' = Some mt \<and> participants mt = [p2]) \<and>
            participant_cache w3 ''m1'' = Some {id_str p2}"
proof -
  let ?w1 = "snd (handle_meeting_join e1 ''m1'' p1 init_world)"
  let ?mt1 = "\<lparr>meeting_id = ''m1'', organizer_id = ''unknown'', subject = None,
                participants = [p1], started_at = Some (utcnow e1)\<rparr>"
  have a1: "active_meetings ?w1 ''m1'' = Some ?mt1"
    and c1: "participant_cache ?w1 ''m1'' = Some {id_str p1}"
    by (simp_all add: join_unknown init_world_def)
  let ?w2 = "snd (handle_meeting_join e2 ''m1'' p2 ?w1)"
  from assms have n: "id_str p2 \<notin> {id_str p1}" by simp
  have w2: "handle_meeting_join e2 ''m1'' p2 ?w1 =
      (Inr (), ?w1\<lparr>active_meetings := (active_meetings ?w1)(''m1'' \<mapsto>
                  ?mt1\<lparr>participants := participants ?mt1 @ [p2]\<rparr>),
                participant_cache := (participant_cache ?w1)(''m1'' \<mapsto> insert (id_str p2) {id_str p1}),
                tts_requests := tts_requests ?w1 @ [greeting_sent e2 p2]\<rparr>)"
    by (rule join_new [OF a1 c1 n])
  have a2: "active_meetings ?w2 ''m1'' = Some (?mt1\<lparr>participants := [p1, p2]\<rparr>)"
    and c2: "participant_cache ?w2 ''m1'' = Some {id_str p2, id_str p1}"
    by (simp_all add: w2)
  have f: "filter (\<lambda>p. id_str p \<noteq> id_str p1) (participants (?mt1\<lparr>participants := [p1, p2]\<rparr>)) = [p2]"
    using assms by auto
  then have ne: "filter (\<lambda>p. id_str p \<noteq> id_str p1) (participants (?mt1\<lparr>participants := [p1, p2]\<rparr>)) \<noteq> []"
    by simp
  have f': "filter (\<lambda>p. id_str p \<noteq> id_str p1) [p1, p2] = [p2]"
    using assms by auto
  have s: "{id_str p2, id_str p1} - {id_str p1} = {id_str p2}" using assms by auto
  show ?thesis
    unfolding Let_def by (simp add: leave_some [OF a2 ne] f' c2 s del: filter.simps)
qed

theorem two_join_one_leave_witness:
  "id_str ana \<noteq> id_str rui \<and>
   (let w1 = snd (handle_meeting_join env_ok ''m1'' ana init_world);
        w2 = snd (handle_meeting_join env_failing ''m1'' rui w1);
        w3 = snd (handle_meeting_leave ''m1'' (id_str ana) w2)
    in (\<exists>mt. active_meetings w3 ''m1'' = Some mt \<and> participants mt = [rui]) \<and>
       participant_cache w3 ''m1'' = Some {id_str rui})"
proof -
  have h: "id_str ana \<noteq> id_str rui" by (simp add: ana_def rui_def)
  from two_join_one_leave [OF h, of env_ok env_failing] h show ?thesis by simp
qed

text \<open>
  C7.  A leave from a meeting that is not active changes nothing at all.  In a reachable
  state, a leave from an active meeting of an id that is not in its participant list
  leaves the meeting active with the same record and the same cache entry; indeed the
  whole state is unchanged.
\<close>

theorem handle_meeting_leave_tolerant:
  "(active_meetings w m = None \<longrightarrow> snd (handle_meeting_leave m pid w) = w) \<and>
   (\<forall>mt. reachable w' \<and> active_meetings w' m' = Some mt \<and>
          pid' \<notin> set (map id_str (participants mt)) \<longrightarrow>
      (let w1 = snd (handle_meeting_leave m' pid' w')
       in active_meetings w1 m' = Some mt \<and> participant_cache w1 m' = participant_cache w' m' \<and>
          w1 = w'))"
proof -
  have a: "active_meetings w m = None \<longrightarrow> snd (handle_meeting_leave m pid w) = w"
    by (simp add: leave_unknown)
  have b: "snd (handle_meeting_leave m' pid' w') = w'"
    if r: "reachable w'" and k: "active_meetings w' m' = Some mt"
      and n: "pid' \<notin> set (map id_str (participants mt))" for mt
  proof -
    have inv: "tracker_inv w'" using r by (rule reachable_tracker_inv)
    have c: "participant_cache w' m' = Some (set (participant_ids mt))"
      by (rule tracker_inv_cache [OF inv k])
    have ne: "participants mt \<noteq> []" using inv k by (simp add: tracker_inv_def)
    have f: "filter (\<lambda>p. id_str p \<noteq> pid') (participants mt) = participants mt"
      using n by (auto simp add: filter_id_conv)
    have s: "set (participant_ids mt) - {pid'} = set (participant_ids mt)"
      using n by (simp add: participant_ids_def)
    have m1: "(active_meetings w')(m' \<mapsto> mt) = active_meetings w'"
      using k by (simp add: fun_upd_idem)
    have m2: "(participant_cache w')(m' \<mapsto> set (participant_ids mt)) = participant_cache w'"
      using c by (simp add: fun_upd_idem)
    from ne f have ne': "filter (\<lambda>p. id_str p \<noteq> pid') (participants mt) \<noteq> []" by simp
    show ?thesis
      by (simp add: leave_some [OF k ne'] f c s m1 m2)
  qed
  from a b show ?thesis by (simp add: Let_def)
qed

theorem handle_meeting_leave_tolerant_witness:
  "active_meetings init_world ''m9'' = None \<and>
   snd (handle_meeting_leave ''m9'' ''p1'' init_world) = init_world \<and>
   (let w1 = snd (handle_meeting_join env_ok ''m1'' ana init_world)
    in reachable w1 \<and>
       active_meetings w1 ''m1'' =
         Some \<lparr>meeting_id = ''m1'', organizer_id = ''unknown'', subject = None,
               participants = [ana], started_at = Some 100\<rparr> \<and>
       ''p2'' \<notin> set (map id_str [ana]) \<and>
       snd (handle_meeting_leave ''m1'' ''p2'' w1) = w1)"
proof -
  let ?w1 = "snd (handle_meeting_join env_ok ''m1'' ana init_world)"
  let ?mt = "\<lparr>meeting_id = ''m1'', organizer_id = ''unknown'', subject = None,
               participants = [ana], started_at = Some 100\<rparr>"
  have n: "active_meetings init_world ''m9'' = None" by (simp add: init_world_def)
  have r: "reachable ?w1" by (rule reachable.join [OF reachable.start])
  have a: "active_meetings ?w1 ''m1'' = Some ?mt" by (simp add: join_ana_start)
  have p: "''p2'' \<notin> set (map id_str (participants ?mt))" by (simp add: ana_def)
  from handle_meeting_leave_tolerant [of init_world "''m9''" "''p1''" ?w1 "''m1''" "''p2''"] n r a p
  show ?thesis by (simp add: Let_def)
qed

section \<open>The bot-name filter of the join handler\<close>

lemma convert_abbott: "convert_teams_participant env_ok abbott = Inr abbott_info"
  by (simp add: convert_teams_participant_def abbott_def abbott_info_def getattr_default_def
      user_attr_def py_or_def env_ok_def)

lemma lower_abbott: "str_lower ''Abbott'' = ''abbott''"
  by code_simp

lemma sub_abbott: "sublist ''bot'' ''abbott''"
  by (simp add: sublist_Cons_right)

lemma bot_in_identifiers: "\<forall>i \<in> set bot_identifiers. sublist ''bot'' i"
  by (simp add: bot_identifiers_def sublist_Cons_right)

lemma is_bot_participant_iff:
  "is_bot_participant p \<longleftrightarrow> sublist ''bot'' (str_lower (display_name p))"
proof
  assume "is_bot_participant p"
  then obtain i where i: "i \<in> set bot_identifiers"
    and s: "sublist i (str_lower (display_name p))"
    by (auto simp add: is_bot_participant_def list_ex_iff)
  from bot_in_identifiers i have "sublist ''bot'' i" by blast
  from this s show "sublist ''bot'' (str_lower (display_name p))"
    by (rule sublist_order.order_trans)
next
  assume "sublist ''bot'' (str_lower (display_name p))"
  then show "is_bot_participant p"
    by (simp add: is_bot_participant_def bot_identifiers_def)
qed

lemma join_loop_skip:
  assumes c: "convert_teams_participant e tp = Inr p" and b: "is_bot_participant p"
  shows "join_loop e mid (xs @ tp # ys) w = join_loop e mid (xs @ ys) w"
proof (induction xs arbitrary: w)
  case Nil
  from c b show ?case by simp
next
  case (Cons x xs)
  then show ?case by (simp split: sum.splits prod.splits)
qed

text \<open>
  C10.  A participant whose lowercased display name contains \<open>bot\<close> is taken for the bot:
  each of the four configured identifiers contains \<open>bot\<close>, so the test is exactly that
  containment.  Such a participant is skipped before the tracker is called: a join event
  with only that participant changes nothing and sends nothing, and in any join event
  the participant can be removed from the list without changing the outcome.
\<close>

theorem bot_named_participant_skipped:
  assumes c: "convert_teams_participant e tp = Inr p"
    and n: "sublist ''bot'' (str_lower (display_name p))"
  shows "is_bot_participant p \<and>
         (\<forall>i \<in> set bot_identifiers. sublist ''bot'' i) \<and>
         on_teams_meeting_participants_join e [tp] mi w = (Inr (), w) \<and>
         on_teams_meeting_participants_join e (xs @ tp # ys) mi w =
           on_teams_meeting_participants_join e (xs @ ys) mi w"
proof -
  from n have b: "is_bot_participant p" by (simp add: is_bot_participant_iff)
  have one: "join_loop e v [tp] w = (Inr (), w)" for v
    using c b by simp
  show ?thesis
    using b bot_in_identifiers one join_loop_skip [OF c b]
    by (simp add: on_teams_meeting_participants_join_def Let_def)
qed

theorem bot_named_participant_skipped_witness:
  "convert_teams_participant env_ok abbott = Inr abbott_info \<and>
   sublist ''bot'' (str_lower (display_name abbott_info)) \<and>
   is_bot_participant abbott_info \<and>
   on_teams_meeting_participants_join env_ok [abbott] (StrVal ''m1'') init_world =
     (Inr (), init_world)"
proof -
  have n: "sublist ''bot'' (str_lower (display_name abbott_info))"
    by (simp add: abbott_info_def lower_abbott sub_abbott)
  from bot_named_participant_skipped [OF convert_abbott n, of "StrVal ''m1''" init_world "[]" "[]"]
    convert_abbott n
  show ?thesis by simp
qed

end
